theory Spec2Isabelle
  imports Main "HOL-Library.Multiset" "HOL-Library.Word"
begin

section \<open>Exceptions\<close>

text \<open>
  The exceptions that the modelled part of \<^verbatim>\<open>datasets/LJSpeech.py\<close> can raise, as
  values. \<open>RuntimeError\<close> stands for the class together with its subclasses, which is
  what an \<^verbatim>\<open>except RuntimeError\<close> clause catches; \<open>OtherError\<close> is any exception
  outside that class (an \<^verbatim>\<open>IOError\<close> of the decoder, say), tagged with its class name.
  The last three constructors are the error names of the specification. No statement
  of the source raises them; they are here so that a result can be compared with them.
\<close>

datatype pyexn =
    IndexError
  | TypeError string
  | ValueError
  | AssertionError
  | ZeroDivisionError
  | RuntimeError
  | OtherError string
  | EmptyBatchError
  | AudioLoadError string
  | FrameAlignmentError



section \<open>Arrays\<close>

text \<open>
  A numpy array of two or three dimensions: its shape and its cells in row-major order.
  The shape is kept beside the cells because an array with an empty axis still has
  its other axes (a spectrogram with no frequency bin still has a frame count).
\<close>

record 'a array2 =
  rows :: nat
  cols :: nat
  cells2 :: "'a list"

record 'a array3 =
  dim0 :: nat
  dim1 :: nat
  dim2 :: nat
  cells :: "'a list"

text \<open>The cell \<open>a[i][j]\<close> and the cell \<open>a[b][k][t]\<close>, for indices inside the shape.\<close>

definition at2 :: "'a array2 \<Rightarrow> nat \<Rightarrow> nat \<Rightarrow> 'a" where
  "at2 a i j = cells2 a ! (i * cols a + j)"

definition at3 :: "'a array3 \<Rightarrow> nat \<Rightarrow> nat \<Rightarrow> nat \<Rightarrow> 'a" where
  "at3 a b k t = cells a ! ((b * dim1 a + k) * dim2 a + t)"

text \<open>An elementwise operation, such as \<^verbatim>\<open>.astype('float32')\<close>, keeps the shape.\<close>

definition map_array2 :: "('a \<Rightarrow> 'b) \<Rightarrow> 'a array2 \<Rightarrow> 'b array2" where
  "map_array2 f a = \<lparr>rows = rows a, cols = cols a, cells2 = map f (cells2 a)\<rparr>"

text \<open>
  \<^verbatim>\<open>np.array([...])\<close> on a list of two-dimensional arrays, used as a three-dimensional
  array afterwards (\<^verbatim>\<open>.shape[2]\<close>). Arrays of one shape are stacked along a new first
  axis. For arrays of different shapes numpy raises \<open>ValueError\<close> (from version 1.24;
  before, it built an array of objects and the later \<^verbatim>\<open>shape[2]\<close> raised). The empty
  list gives a one-dimensional array, which has no \<^verbatim>\<open>shape[2]\<close>: \<open>IndexError\<close>;
  \<^verbatim>\<open>collate_fn\<close> never stacks an empty list.
\<close>

definition np_array :: "'a array2 list \<Rightarrow> pyexn + 'a array3" where
  "np_array xs =
     (case xs of
        [] \<Rightarrow> Inl IndexError
      | x # _ \<Rightarrow>
          if list_all (\<lambda>y. rows y = rows x \<and> cols y = cols x) xs
          then Inr \<lparr>dim0 = length xs, dim1 = rows x, dim2 = cols x,
                    cells = concat (map cells2 xs)\<rparr>
          else Inl ValueError)"

text \<open>\<^verbatim>\<open>a.transpose(0, 2, 1)\<close>: the last two axes change places.\<close>

definition transpose_021 :: "'a array3 \<Rightarrow> 'a array3" where
  "transpose_021 a =
     \<lparr>dim0 = dim0 a, dim1 = dim2 a, dim2 = dim1 a,
      cells = concat (map (\<lambda>b. concat (map (\<lambda>t. map (\<lambda>k. at3 a b k t) [0..<dim1 a])
                                          [0..<dim2 a]))
                      [0..<dim0 a])\<rparr>"

text \<open>
  Modelled from the spec: \<^verbatim>\<open>pad_per_step\<close> of \<^verbatim>\<open>TTS.utils.data\<close>, which is imported
  by the source and not part of it. Section 4.5, step 4: both spectrogram arrays are
  padded along the time axis (the last axis of the stacked arrays) by the step padding
  length, filling with a configured pad value. The specification gives no meaning to a
  negative amount; the model rejects it with \<open>ValueError\<close>, as numpy's padding does.
\<close>

definition pad_per_step :: "'a \<Rightarrow> 'a array3 \<Rightarrow> int \<Rightarrow> pyexn + 'a array3" where
  "pad_per_step pad_value inputs pad_len =
     (if pad_len < 0 then Inl ValueError
      else Inr \<lparr>dim0 = dim0 inputs, dim1 = dim1 inputs, dim2 = dim2 inputs + nat pad_len,
                cells = concat (map (\<lambda>b. concat (map (\<lambda>k.
                            map (\<lambda>t. if t < dim2 inputs then at3 inputs b k t else pad_value)
                                [0..<dim2 inputs + nat pad_len])
                          [0..<dim1 inputs]))
                        [0..<dim0 inputs])\<rparr>)"


section \<open>Padding sequences to a common length\<close>

definition max_len :: "'a list list \<Rightarrow> nat" where
  "max_len sequences = fold max (map length sequences) 0"

text \<open>
  Modelled from the spec: \<^verbatim>\<open>prepare_data\<close> (with \<^verbatim>\<open>pad_data\<close>) of \<^verbatim>\<open>TTS.utils.data\<close>,
  imported by the source and not part of it; the specification calls it
  \<open>SequencePadder.pad\<close> (section 4.3). The matrix is as wide as the longest sequence,
  each row is the sequence followed by the fill value up to that width, and the
  original lengths are returned beside the matrix. The matrix is a list of rows: the
  source only iterates over it.
\<close>

definition pad_data :: "'a \<Rightarrow> 'a list \<Rightarrow> nat \<Rightarrow> 'a list" where
  "pad_data fill x width = x @ replicate (width - length x) fill"

definition sequence_pad :: "'a list list \<Rightarrow> 'a \<Rightarrow> 'a list list \<times> nat list" where
  "sequence_pad sequences fill =
     (map (\<lambda>x. pad_data fill x (max_len sequences)) sequences, map length sequences)"

text \<open>
  The source calls the padder with the sequences alone and uses the matrix; the fill
  is the pad symbol \<open>0\<close> for transcripts and \<open>0.0\<close> for waveforms.
\<close>

definition prepare_data :: "('a::zero) list list \<Rightarrow> 'a list list" where
  "prepare_data inputs = fst (sequence_pad inputs 0)"


section \<open>Examples, batches and the dataset object\<close>

text \<open>
  What \<^verbatim>\<open>__getitem__\<close> builds (line 61): a dictionary with the keys \<^verbatim>\<open>'text'\<close>,
  \<^verbatim>\<open>'wav'\<close> and \<^verbatim>\<open>'item_idx'\<close>. The transcript is an array of a signed integer type
  of at most 64 bits: its cells are 64-bit words, read as signed (\<open>sint\<close>), and the
  \<^verbatim>\<open>int32\<close> array that \<^verbatim>\<open>__getitem__\<close> builds is its sign extension. \<open>'f\<close> is the type of
  the floating point numbers, about which the model assumes nothing.
\<close>

record 'f sample =
  sample_text :: "64 word list"
  sample_wav :: "'f list"
  sample_item_idx :: string

text \<open>
  An element of a batch is such a dictionary, or an object of a built-in class that is
  not a mapping. Dictionaries with other keys, and tensors, are outside the model.
\<close>

datatype pytype = PyInt | PyFloat | PyStr | PyList | PyTuple | PyNoneType

datatype 'f item = Mapping "'f sample" | NonMapping pytype

fun type_repr :: "pytype \<Rightarrow> string" where
  "type_repr PyInt = ''<class 'int'>''"
| "type_repr PyFloat = ''<class 'float'>''"
| "type_repr PyStr = ''<class 'str'>''"
| "type_repr PyList = ''<class 'list'>''"
| "type_repr PyTuple = ''<class 'tuple'>''"
| "type_repr PyNoneType = ''<class 'NoneType'>''"

text \<open>
  The message of lines 118 to 120. The backslash at the end of line 118 continues the
  string literal, so the 25 blanks that indent line 119 are part of the message.
\<close>

definition batch_type_error :: "pytype \<Rightarrow> pyexn" where
  "batch_type_error ty =
     TypeError (''batch must contain tensors, numbers, dicts or lists;''
                @ replicate 25 (CHR '' '') @ ''found '' @ type_repr ty)"

text \<open>
  \<^verbatim>\<open>d['wav']\<close> and the like: the field of a dictionary, a \<open>TypeError\<close> on an object
  of the other classes (messages of CPython 3.6 to 3.9).
\<close>

fun subscript_message :: "pytype \<Rightarrow> string" where
  "subscript_message PyInt = '''int' object is not subscriptable''"
| "subscript_message PyFloat = '''float' object is not subscriptable''"
| "subscript_message PyNoneType = '''NoneType' object is not subscriptable''"
| "subscript_message PyStr = ''string indices must be integers''"
| "subscript_message PyList = ''list indices must be integers or slices, not str''"
| "subscript_message PyTuple = ''tuple indices must be integers or slices, not str''"

fun subscript :: "('f sample \<Rightarrow> 'a) \<Rightarrow> 'f item \<Rightarrow> pyexn + 'a" where
  "subscript field (Mapping d) = Inr (field d)"
| "subscript field (NonMapping ty) = Inl (TypeError (subscript_message ty))"

text \<open>
  \<^verbatim>\<open>AudioProcessor\<close> (\<^verbatim>\<open>TTS.utils.audio\<close>) is imported by the source and not part of it:
  its two methods are parameters of the model. Each takes a waveform and returns an
  array [frequency bins \<times> frames], or raises.
\<close>

record 'f audio_processor =
  spectrogram :: "'f list \<Rightarrow> pyexn + 'f array2"
  melspectrogram :: "'f list \<Rightarrow> pyexn + 'f array2"

text \<open>The attributes that \<^verbatim>\<open>__init__\<close> sets (lines 19 to 26).\<close>

record 'f dataset =
  frames :: "string list list"
  root_dir :: string
  outputs_per_step :: int
  sample_rate :: int
  cleaners :: string
  ap :: "'f audio_processor"

text \<open>
  The floating point operations that are numpy's: the conversion to \<^verbatim>\<open>float32\<close>, and
  the value that \<^verbatim>\<open>pad_per_step\<close> fills with.
\<close>

record 'f floats =
  astype_float32 :: "'f \<Rightarrow> 'f"
  step_pad_value :: "'f"

text \<open>A list comprehension whose body may raise: the first exception ends it.\<close>

fun map_exn :: "('a \<Rightarrow> pyexn + 'b) \<Rightarrow> 'a list \<Rightarrow> pyexn + 'b list" where
  "map_exn f [] = Inr []"
| "map_exn f (x # xs) =
     (case f x of
        Inl e \<Rightarrow> Inl e
      | Inr y \<Rightarrow> (case map_exn f xs of Inl e \<Rightarrow> Inl e | Inr ys \<Rightarrow> Inr (y # ys)))"

section \<open>The step padding length\<close>

text \<open>
  Lines 98 to 103 of \<^verbatim>\<open>collate_fn\<close>:
  \<^verbatim>\<open>
  if (timesteps + 1) % self.outputs_per_step != 0:
      pad_len = self.outputs_per_step - ((timesteps + 1) % self.outputs_per_step)
      pad_len += 1
  else:
      pad_len = 1
  \<close>
  \<open>timesteps\<close> is an entry of an array shape, hence a natural number;
  \<open>outputs_per_step\<close> is whatever integer the constructor was given. Python's \<open>%\<close>
  on integers takes the sign of the divisor, as \<open>mod\<close> on \<open>int\<close> does, and raises
  \<open>ZeroDivisionError\<close> for a zero divisor, where HOL would return the dividend.
  The argument \<open>r\<close> is the value of \<^verbatim>\<open>self.outputs_per_step\<close>.
\<close>

definition step_pad_len :: "int \<Rightarrow> nat \<Rightarrow> pyexn + int" where
  "step_pad_len r timesteps =
     (if r = 0 then Inl ZeroDivisionError
      else if (int timesteps + 1) mod r \<noteq> 0
        then Inr (r - ((int timesteps + 1) mod r) + 1)
        else Inr 1)"


section \<open>Batch assembly\<close>

text \<open>
  Sequencing: the statement after one that raised is not run, and the exception is the
  result.
\<close>

definition bind_exn :: "pyexn + 'a \<Rightarrow> ('a \<Rightarrow> pyexn + 'b) \<Rightarrow> pyexn + 'b" where
  "bind_exn m f = (case m of Inl e \<Rightarrow> Inl e | Inr x \<Rightarrow> f x)"

text \<open>
  \<^verbatim>\<open>np.array([method(w).astype('float32') for w in wav])\<close> of lines 92 and 93.
\<close>

definition stacked :: "'f floats \<Rightarrow> ('f list \<Rightarrow> pyexn + 'f array2) \<Rightarrow> 'f list list
    \<Rightarrow> pyexn + 'f array3" where
  "stacked fl method wav =
     bind_exn (map_exn (\<lambda>w. bind_exn (method w)
                               (\<lambda>s. Inr (map_array2 (astype_float32 fl) s))) wav)
       np_array"

text \<open>
  \<^verbatim>\<open>collate_fn\<close>, lines 68 to 120. \<^verbatim>\<open>batch[0]\<close> raises \<open>IndexError\<close> on the empty
  list before anything else happens. The result is the tuple of line 116.
  \<^verbatim>\<open>.astype(np.int32)\<close> (line 89) keeps the low 32 bits of each symbol, and
  \<^verbatim>\<open>torch.LongTensor\<close> (line 113) extends them with their sign to 64 bits; the other
  conversions to torch tensors keep shapes and values. \<^verbatim>\<open>max_text_len\<close> (line 86) is
  computed on a non-empty array and never used. The \<^verbatim>\<open>assert\<close> is taken as enabled.
  The body under the \<^verbatim>\<open>isinstance\<close> test comes first, as \<open>collate_mappings\<close>.
\<close>

definition astype_int32 :: "64 word \<Rightarrow> 32 word" where
  "astype_int32 x = ucast x"

definition long_tensor :: "32 word \<Rightarrow> 64 word" where
  "long_tensor x = scast x"

definition collate_mappings :: "'f floats \<Rightarrow> ('f::zero) dataset \<Rightarrow> 'f item list
    \<Rightarrow> pyexn + (64 word list list \<times> nat list \<times> 'f array3 \<times> 'f array3 \<times> string)" where
  "collate_mappings fl self batch =
     bind_exn (map_exn (subscript sample_wav) batch) (\<lambda>wav.
     bind_exn (map_exn (subscript sample_item_idx) batch) (\<lambda>item_idxs.
     bind_exn (map_exn (subscript sample_text) batch) (\<lambda>text.
     let text_lenghts = map length text;
         text = map (map astype_int32) (prepare_data text);
         wav = prepare_data wav
     in
     bind_exn (stacked fl (spectrogram (ap self)) wav) (\<lambda>linear.
     bind_exn (stacked fl (melspectrogram (ap self)) wav) (\<lambda>mel.
     if dim2 mel \<noteq> dim2 linear then Inl AssertionError
     else
       let timesteps = dim2 mel in
       bind_exn (step_pad_len (outputs_per_step self) timesteps) (\<lambda>pad_len.
       bind_exn (pad_per_step (step_pad_value fl) linear pad_len) (\<lambda>linear.
       bind_exn (pad_per_step (step_pad_value fl) mel pad_len) (\<lambda>mel.
       let linear = transpose_021 linear;
           mel = transpose_021 mel;
           text = map (map long_tensor) text
       in
       (case item_idxs of
          [] \<Rightarrow> Inl IndexError
        | first_idx # _ \<Rightarrow> Inr (text, text_lenghts, linear, mel, first_idx))))))))))"

definition collate_fn :: "'f floats \<Rightarrow> ('f::zero) dataset \<Rightarrow> 'f item list
    \<Rightarrow> pyexn + (64 word list list \<times> nat list \<times> 'f array3 \<times> 'f array3 \<times> string)" where
  "collate_fn fl self batch =
     (case batch of
        [] \<Rightarrow> Inl IndexError
      | first # _ \<Rightarrow>
          (case first of
             Mapping _ \<Rightarrow> collate_mappings fl self batch
           | NonMapping ty \<Rightarrow> Inl (batch_type_error ty)))"


section \<open>Loading one example\<close>

text \<open>
  \<^verbatim>\<open>load_wav\<close>, lines 31 to 36. The decoder \<^verbatim>\<open>librosa.core.load\<close> is a parameter: it
  returns the samples with the sampling rate, or raises. Printing appends a line to
  the standard output, which is passed through. A function that ends without
  \<^verbatim>\<open>return\<close> returns \<^verbatim>\<open>None\<close>: that is the result \<open>Inr None\<close> of the handler.
\<close>

definition load_wav :: "(string \<Rightarrow> int \<Rightarrow> pyexn + 'f list \<times> int) \<Rightarrow> 'f dataset
    \<Rightarrow> string list \<Rightarrow> string \<Rightarrow> string list \<times> (pyexn + ('f list \<times> int) option)" where
  "load_wav librosa_load self out filename =
     (case librosa_load filename (sample_rate self) of
        Inr audio \<Rightarrow> (out, Inr (Some audio))
      | Inl e \<Rightarrow>
          if e = RuntimeError
          then (out @ ['' !! Cannot read file : '' @ filename], Inr None)
          else (out, Inl e))"

text \<open>Indexing a list as Python does: a negative index counts from the end.\<close>

definition py_index :: "'a list \<Rightarrow> int \<Rightarrow> pyexn + 'a" where
  "py_index xs i =
     (if 0 \<le> i \<and> i < int (length xs) then Inr (xs ! nat i)
      else if i < 0 \<and> - int (length xs) \<le> i then Inr (xs ! nat (int (length xs) + i))
      else Inl IndexError)"

text \<open>\<^verbatim>\<open>os.path.join\<close> of two components, on a POSIX system.\<close>

definition os_path_join :: "string \<Rightarrow> string \<Rightarrow> string" where
  "os_path_join a b =
     (if b \<noteq> [] \<and> hd b = CHR ''/'' then b
      else if a = [] \<or> last a = CHR ''/'' then a @ b
      else a @ ''/'' @ b)"

text \<open>
  \<^verbatim>\<open>__getitem__\<close>, lines 55 to 62. Line 59 as a whole is a parameter: what
  \<^verbatim>\<open>text_to_sequence\<close> (\<^verbatim>\<open>TTS.utils.text\<close>) returns, as the \<^verbatim>\<open>int32\<close> array that
  \<^verbatim>\<open>np.asarray\<close> makes of it, or the exception that either raises. The result of
  \<^verbatim>\<open>load_wav\<close> is subscripted with \<^verbatim>\<open>[0]\<close>, which raises \<open>TypeError\<close> on \<^verbatim>\<open>None\<close>.
\<close>

definition getitem :: "(string \<Rightarrow> int \<Rightarrow> pyexn + 'f list \<times> int)
    \<Rightarrow> (string \<Rightarrow> string list \<Rightarrow> pyexn + 32 word list) \<Rightarrow> 'f floats \<Rightarrow> 'f dataset
    \<Rightarrow> string list \<Rightarrow> int \<Rightarrow> string list \<times> (pyexn + 'f sample)" where
  "getitem librosa_load text_to_int32 fl self out idx =
     (case bind_exn (py_index (frames self) idx) (\<lambda>ins. py_index ins 0) of
        Inl e \<Rightarrow> (out, Inl e)
      | Inr name \<Rightarrow>
          (let wav_name = os_path_join (root_dir self) name @ ''.wav'' in
           (case bind_exn (py_index (frames self) idx) (\<lambda>ins. py_index ins 1) of
              Inl e \<Rightarrow> (out, Inl e)
            | Inr raw_text \<Rightarrow>
                (case text_to_int32 raw_text [cleaners self] of
                   Inl e \<Rightarrow> (out, Inl e)
                 | Inr text \<Rightarrow>
                     (case load_wav librosa_load self out wav_name of
                        (out', Inl e) \<Rightarrow> (out', Inl e)
                      | (out', Inr None) \<Rightarrow>
                          (out', Inl (TypeError (subscript_message PyNoneType)))
                      | (out', Inr (Some (audio, sr))) \<Rightarrow>
                          (out', Inr \<lparr>sample_text = map scast text,
                                      sample_wav = map (astype_float32 fl) audio,
                                      sample_item_idx = name\<rparr>))))))"


section \<open>Ordering the examples by length\<close>









section \<open>The spectral frontend\<close>

text \<open>
  Modelled from the spec: the two methods of \<^verbatim>\<open>AudioProcessor\<close> (\<^verbatim>\<open>TTS.utils.audio\<close>),
  imported by the source and not part of it. Section 4.4: both outputs derive from one
  short-time transform; pre-emphasis is applied to the waveform before the transform,
  the magnitude is taken, and a decibel conversion with normalisation and clipping is
  applied to each magnitude; the mel variant projects the frequency bins onto a mel
  filter bank before the decibel step. The transform with its magnitude, the filter,
  the filter bank and the two elementwise steps are the configuration.
\<close>

record 'f frontend =
  preemphasis :: "'f list \<Rightarrow> 'f list"
  stft_magnitude :: "'f list \<Rightarrow> pyexn + 'f array2"
  mel_basis :: "'f array2"
  amp_to_db :: "'f \<Rightarrow> 'f"
  normalize :: "'f \<Rightarrow> 'f"

text \<open>The product of a matrix [m \<times> n] with a matrix [n \<times> t].\<close>

definition matmul :: "('f::semiring_0) array2 \<Rightarrow> 'f array2 \<Rightarrow> pyexn + 'f array2" where
  "matmul a b =
     (if cols a \<noteq> rows b then Inl ValueError
      else Inr \<lparr>rows = rows a, cols = cols b,
                cells2 = concat (map (\<lambda>i. map (\<lambda>j.
                             sum_list (map (\<lambda>k. at2 a i k * at2 b k j) [0..<cols a]))
                           [0..<cols b])
                         [0..<rows a])\<rparr>)"

definition frontend_spectrogram :: "'f frontend \<Rightarrow> 'f list \<Rightarrow> pyexn + 'f array2" where
  "frontend_spectrogram fe w =
     bind_exn (stft_magnitude fe (preemphasis fe w)) (\<lambda>s.
       Inr (map_array2 (\<lambda>x. normalize fe (amp_to_db fe x)) s))"

definition frontend_melspectrogram :: "('f::semiring_0) frontend \<Rightarrow> 'f list
    \<Rightarrow> pyexn + 'f array2" where
  "frontend_melspectrogram fe w =
     bind_exn (stft_magnitude fe (preemphasis fe w)) (\<lambda>s.
     bind_exn (matmul (mel_basis fe) s) (\<lambda>m.
       Inr (map_array2 (\<lambda>x. normalize fe (amp_to_db fe x)) m)))"

definition spectral_frontend :: "('f::semiring_0) frontend \<Rightarrow> 'f audio_processor" where
  "spectral_frontend fe =
     \<lparr>spectrogram = frontend_spectrogram fe, melspectrogram = frontend_melspectrogram fe\<rparr>"


section \<open>A small configuration for evaluation\<close>

text \<open>
  A frontend with two frequency bins, one mel bin and a hop of four samples, on integer
  sample values; a dataset object around it with \<open>outputs_per_step = 5\<close> and a
  manifest of two lines whose transcripts have the same length; a batch of two
  examples; a decoder that fails on every file with \<open>RuntimeError\<close>; and a
  symbol table that gives each character its code. The theorems below are evaluated
  on them.
\<close>

definition demo_frontend :: "int frontend" where
  "demo_frontend =
     \<lparr>preemphasis = (\<lambda>w. w),
      stft_magnitude = (\<lambda>w. Inr \<lparr>rows = 2, cols = 1 + length w div 4,
                                 cells2 = concat (replicate 2
                                   (map (\<lambda>t. abs (sum_list (take 4 (drop (4 * t) w))))
                                        [0..<1 + length w div 4]))\<rparr>),
      mel_basis = \<lparr>rows = 1, cols = 2, cells2 = [1, 1]\<rparr>,
      amp_to_db = (\<lambda>x. x),
      normalize = (\<lambda>x. min x 100)\<rparr>"

definition demo_floats :: "int floats" where
  "demo_floats = \<lparr>astype_float32 = (\<lambda>x. x), step_pad_value = 0\<rparr>"

definition tied_frames :: "string list list" where
  "tied_frames = [[''LJ001-0002'', ''in being''], [''LJ001-0001'', ''Printing'']]"

definition demo_dataset :: "int dataset" where
  "demo_dataset =
     \<lparr>frames = tied_frames,
      root_dir = ''wavs'', outputs_per_step = 5, sample_rate = 22050,
      cleaners = ''english_cleaners'', ap = spectral_frontend demo_frontend\<rparr>"

definition demo_batch :: "int item list" where
  "demo_batch =
     [Mapping \<lparr>sample_text = [1, 2], sample_wav = [3, -1, 4],
               sample_item_idx = ''LJ001-0002''\<rparr>,
      Mapping \<lparr>sample_text = [1, 2, 3, 4], sample_wav = [2, 7, -1, 8, 2, 8, 1, 8, -2],
               sample_item_idx = ''LJ001-0001''\<rparr>]"

definition unreadable :: "string \<Rightarrow> int \<Rightarrow> pyexn + int list \<times> int" where
  "unreadable filename sr = Inl RuntimeError"

definition demo_symbols :: "string \<Rightarrow> string list \<Rightarrow> pyexn + 32 word list" where
  "demo_symbols raw_text cleaner_names = Inr (map (\<lambda>c. of_nat (of_char c)) raw_text)"


section \<open>Theorems\<close>

subsection \<open>Arrays, sequencing and the shape of a successful run\<close>

lemma length_concat_map_upt:
  "(\<And>i. i < m \<Longrightarrow> length (f i) = n) \<Longrightarrow> length (concat (map f [0..<m])) = m * n"
  by (induction m) simp_all

lemma nth_concat_map_upt:
  assumes len: "\<And>i. i < m \<Longrightarrow> length (f i) = n" and i: "i < m" and j: "j < n"
  shows "concat (map f [0..<m]) ! (i * n + j) = f i ! j"
  using len i
proof (induction m)
  case 0
  then show ?case by simp
next
  case (Suc m)
  have lenm: "length (concat (map f [0..<m])) = m * n"
    using Suc.prems(1) by (intro length_concat_map_upt) simp
  show ?case
  proof (cases "i < m")
    case True
    then have "Suc i \<le> m" by simp
    then have "Suc i * n \<le> m * n" by (rule mult_le_mono1)
    with j have "i * n + j < m * n" by simp
    with lenm True Suc show ?thesis by (simp add: nth_append)
  next
    case False
    with Suc.prems(2) have "i = m" by simp
    with lenm show ?thesis by (simp add: nth_append)
  qed
qed

lemma at3_transpose_021:
  assumes "b < dim0 a" and "t < dim2 a" and "k < dim1 a"
  shows "at3 (transpose_021 a) b t k = at3 a b k t"
proof -
  let ?row = "\<lambda>b t. map (\<lambda>k. at3 a b k t) [0..<dim1 a]"
  let ?plane = "\<lambda>b. concat (map (?row b) [0..<dim2 a])"
  have plane_len: "length (?plane b') = dim2 a * dim1 a" for b'
    by (rule length_concat_map_upt) simp
  have inner: "t * dim1 a + k < dim2 a * dim1 a"
  proof -
    from assms(2) have "Suc t * dim1 a \<le> dim2 a * dim1 a"
      by (intro mult_le_mono1) simp
    with assms(3) show ?thesis by simp
  qed
  have idx: "(b * dim2 a + t) * dim1 a + k = b * (dim2 a * dim1 a) + (t * dim1 a + k)"
    by (simp add: algebra_simps)
  have "at3 (transpose_021 a) b t k = concat (map ?plane [0..<dim0 a]) ! ((b * dim2 a + t) * dim1 a + k)"
    by (simp add: at3_def transpose_021_def)
  also have "\<dots> = ?plane b ! (t * dim1 a + k)"
    unfolding idx using plane_len assms(1) inner by (rule nth_concat_map_upt)
  also have "\<dots> = ?row b t ! k"
    using _ assms(2) assms(3) by (rule nth_concat_map_upt) simp
  also have "\<dots> = at3 a b k t"
    using assms(3) by simp
  finally show ?thesis .
qed

lemma at3_pad_per_step:
  assumes "pad_per_step v a n = Inr a'" and "b < dim0 a" and "k < dim1 a" and "t < dim2 a'"
  shows "at3 a' b k t = (if t < dim2 a then at3 a b k t else v)"
proof -
  from assms(1) have n: "0 \<le> n" and a': "a' = \<lparr>dim0 = dim0 a, dim1 = dim1 a, dim2 = dim2 a + nat n,
                cells = concat (map (\<lambda>b. concat (map (\<lambda>k.
                            map (\<lambda>t. if t < dim2 a then at3 a b k t else v)
                                [0..<dim2 a + nat n])
                          [0..<dim1 a]))
                        [0..<dim0 a])\<rparr>"
    by (auto simp: pad_per_step_def split: if_splits)
  let ?T = "dim2 a + nat n"
  let ?row = "\<lambda>b k. map (\<lambda>t. if t < dim2 a then at3 a b k t else v) [0..<?T]"
  let ?plane = "\<lambda>b. concat (map (?row b) [0..<dim1 a])"
  from assms(4) a' have t: "t < ?T" by simp
  have plane_len: "length (?plane b') = dim1 a * ?T" for b'
    by (rule length_concat_map_upt) simp
  have inner: "k * ?T + t < dim1 a * ?T"
  proof -
    from assms(3) have "Suc k * ?T \<le> dim1 a * ?T"
      by (intro mult_le_mono1) simp
    with t show ?thesis by simp
  qed
  have idx: "(b * dim1 a + k) * ?T + t = b * (dim1 a * ?T) + (k * ?T + t)"
    by (simp add: algebra_simps)
  have "at3 a' b k t = concat (map ?plane [0..<dim0 a]) ! ((b * dim1 a + k) * ?T + t)"
    by (simp add: at3_def a')
  also have "\<dots> = ?plane b ! (k * ?T + t)"
    unfolding idx using plane_len assms(2) inner by (rule nth_concat_map_upt)
  also have "\<dots> = ?row b k ! t"
    using _ assms(3) t by (rule nth_concat_map_upt) simp
  also have "\<dots> = (if t < dim2 a then at3 a b k t else v)"
    using t by simp
  finally show ?thesis .
qed

lemma pad_per_step_dims:
  assumes "pad_per_step v a n = Inr a'"
  shows "0 \<le> n \<and> dim0 a' = dim0 a \<and> dim1 a' = dim1 a \<and> dim2 a' = dim2 a + nat n"
  using assms by (auto simp: pad_per_step_def split: if_splits)

lemma transpose_021_dims:
  "dim0 (transpose_021 a) = dim0 a \<and> dim1 (transpose_021 a) = dim2 a
     \<and> dim2 (transpose_021 a) = dim1 a"
  by (simp add: transpose_021_def)

lemma bind_exn_Inr:
  "bind_exn m f = Inr y \<longleftrightarrow> (\<exists>x. m = Inr x \<and> f x = Inr y)"
  by (cases m) (simp_all add: bind_exn_def)

lemma map_exn_subscript:
  "map_exn (subscript field) batch = Inr xs
     \<Longrightarrow> \<exists>samples. batch = map Mapping samples \<and> xs = map field samples"
proof (induction batch arbitrary: xs)
  case Nil
  then show ?case by simp
next
  case (Cons d batch)
  then obtain s where d: "d = Mapping s"
    by (cases d) simp_all
  with Cons.prems obtain ys where ys: "map_exn (subscript field) batch = Inr ys" and xs: "xs = field s # ys"
    by (auto split: sum.splits)
  from Cons.IH [OF ys] obtain samples where "batch = map Mapping samples" "ys = map field samples"
    by blast
  with d xs have "d # batch = map Mapping (s # samples) \<and> xs = map field (s # samples)" by simp
  then show ?case by (rule exI [of _ "s # samples"])
qed

lemma collate_mappings_Inr:
  assumes "collate_mappings fl self batch = Inr (text, lens, linear, mel, ident)"
  shows "\<exists>samples lin0 mel0 pad_len lin1 mel1.
           batch = map Mapping samples \<and> samples \<noteq> []
         \<and> text = map (map long_tensor) (map (map astype_int32) (prepare_data (map sample_text samples)))
         \<and> lens = map length (map sample_text samples)
         \<and> ident = sample_item_idx (hd samples)
         \<and> stacked fl (spectrogram (ap self)) (prepare_data (map sample_wav samples)) = Inr lin0
         \<and> stacked fl (melspectrogram (ap self)) (prepare_data (map sample_wav samples)) = Inr mel0
         \<and> dim2 mel0 = dim2 lin0
         \<and> step_pad_len (outputs_per_step self) (dim2 mel0) = Inr pad_len
         \<and> pad_per_step (step_pad_value fl) lin0 pad_len = Inr lin1
         \<and> pad_per_step (step_pad_value fl) mel0 pad_len = Inr mel1
         \<and> linear = transpose_021 lin1 \<and> mel = transpose_021 mel1"
proof -
  from assms obtain wav item_idxs texts where
    w: "map_exn (subscript sample_wav) batch = Inr wav" and
    i: "map_exn (subscript sample_item_idx) batch = Inr item_idxs" and
    t: "map_exn (subscript sample_text) batch = Inr texts" and
    rest: "bind_exn (stacked fl (spectrogram (ap self)) (prepare_data wav)) (\<lambda>linear.
     bind_exn (stacked fl (melspectrogram (ap self)) (prepare_data wav)) (\<lambda>mel.
     if dim2 mel \<noteq> dim2 linear then Inl AssertionError
     else
       bind_exn (step_pad_len (outputs_per_step self) (dim2 mel)) (\<lambda>pad_len.
       bind_exn (pad_per_step (step_pad_value fl) linear pad_len) (\<lambda>linear.
       bind_exn (pad_per_step (step_pad_value fl) mel pad_len) (\<lambda>mel.
       (case item_idxs of
          [] \<Rightarrow> Inl IndexError
        | first_idx # _ \<Rightarrow> Inr (map (map long_tensor) (map (map astype_int32) (prepare_data texts)),
               map length texts, transpose_021 linear, transpose_021 mel, first_idx)))))))
      = Inr (text, lens, linear, mel, ident)"
    unfolding collate_mappings_def bind_exn_Inr Let_def by blast
  from rest obtain lin0 mel0 where
    l0: "stacked fl (spectrogram (ap self)) (prepare_data wav) = Inr lin0" and
    m0: "stacked fl (melspectrogram (ap self)) (prepare_data wav) = Inr mel0" and
    rest2: "(if dim2 mel0 \<noteq> dim2 lin0 then Inl AssertionError
     else
       bind_exn (step_pad_len (outputs_per_step self) (dim2 mel0)) (\<lambda>pad_len.
       bind_exn (pad_per_step (step_pad_value fl) lin0 pad_len) (\<lambda>linear.
       bind_exn (pad_per_step (step_pad_value fl) mel0 pad_len) (\<lambda>mel.
       (case item_idxs of
          [] \<Rightarrow> Inl IndexError
        | first_idx # _ \<Rightarrow> Inr (map (map long_tensor) (map (map astype_int32) (prepare_data texts)),
               map length texts, transpose_021 linear, transpose_021 mel, first_idx))))))
      = Inr (text, lens, linear, mel, ident)"
    unfolding bind_exn_Inr by blast
  from rest2 have eq: "dim2 mel0 = dim2 lin0" by (auto split: if_splits)
  with rest2 obtain pad_len lin1 mel1 where
    p: "step_pad_len (outputs_per_step self) (dim2 mel0) = Inr pad_len" and
    l1: "pad_per_step (step_pad_value fl) lin0 pad_len = Inr lin1" and
    m1: "pad_per_step (step_pad_value fl) mel0 pad_len = Inr mel1" and
    fin: "(case item_idxs of
          [] \<Rightarrow> Inl IndexError
        | first_idx # _ \<Rightarrow> Inr (map (map long_tensor) (map (map astype_int32) (prepare_data texts)),
               map length texts, transpose_021 lin1, transpose_021 mel1, first_idx))
      = Inr (text, lens, linear, mel, ident)"
    by (auto simp: bind_exn_Inr)
  from fin obtain first_idx others where ii: "item_idxs = first_idx # others"
    and res: "text = map (map long_tensor) (map (map astype_int32) (prepare_data texts))" "lens = map length texts" "linear = transpose_021 lin1"
       "mel = transpose_021 mel1" "ident = first_idx"
    by (cases item_idxs) auto
  from map_exn_subscript [OF w] obtain samples where
    b: "batch = map Mapping samples" and wv: "wav = map sample_wav samples" by blast
  from map_exn_subscript [OF i] b have iv: "item_idxs = map sample_item_idx samples"
    by (auto dest!: map_injective simp: inj_on_def)
  from map_exn_subscript [OF t] b have tv: "texts = map sample_text samples"
    by (auto dest!: map_injective simp: inj_on_def)
  from ii iv have ne: "samples \<noteq> []" by auto
  with ii iv have "first_idx = sample_item_idx (hd samples)" by (cases samples) auto
  with b ne res wv tv l0 m0 eq p l1 m1 show ?thesis by blast
qed

lemma collate_fn_Inr:
  assumes "collate_fn fl self batch = Inr res"
  shows "collate_mappings fl self batch = Inr res \<and> (\<exists>d rest. batch = Mapping d # rest)"
  using assms by (auto simp: collate_fn_def split: list.splits item.splits)


lemma step_pad_len_lower:
  assumes "step_pad_len r timesteps = Inr pad_len" and "1 \<le> r"
  shows "1 \<le> pad_len"
proof (cases "(int timesteps + 1) mod r = 0")
  case True
  with assms show ?thesis by (simp add: step_pad_len_def split: if_splits)
next
  case False
  define m where "m = (int timesteps + 1) mod r"
  from assms(2) have "m < r" unfolding m_def by (intro pos_mod_bound) simp
  moreover from assms False have "pad_len = r - m + 1"
    unfolding m_def by (simp add: step_pad_len_def split: if_splits)
  ultimately show ?thesis by linarith
qed

lemma step_padded_multiple:
  assumes "1 \<le> r"
  shows "(int timesteps + (if (int timesteps + 1) mod r \<noteq> 0
            then r - (int timesteps + 1) mod r + 1 else 1)) mod r = 0"
proof (cases "(int timesteps + 1) mod r = 0")
  case True
  then show ?thesis by simp
next
  case False
  define a where "a = int timesteps + 1"
  have "a - a mod r = r * (a div r)"
    by (rule minus_mod_eq_mult_div)
  then have "int timesteps + (r - a mod r + 1) = r * (a div r) + r"
    unfolding a_def by linarith
  then have "(int timesteps + (r - a mod r + 1)) mod r = (r * (a div r) + r) mod r"
    by (simp only:)
  also have "\<dots> = 0" by simp
  finally show ?thesis using False unfolding a_def by simp
qed

lemma collate_fn_demo:
  "collate_fn demo_floats demo_dataset demo_batch =
     Inr ([[1, 2, 0, 0], [1, 2, 3, 4]], [2, 4],
          \<lparr>dim0 = 2, dim1 = 5, dim2 = 2,
           cells = [6, 6, 0, 0, 0, 0, 0, 0, 0, 0, 16, 16, 19, 19, 2, 2, 0, 0, 0, 0]\<rparr>,
          \<lparr>dim0 = 2, dim1 = 5, dim2 = 1, cells = [12, 0, 0, 0, 0, 32, 38, 4, 0, 0]\<rparr>,
          ''LJ001-0002'')"
  by code_simp

lemma outputs_per_step_demo: "1 \<le> outputs_per_step demo_dataset"
  by (simp add: demo_dataset_def)



subsection \<open>Bounds of the step padding length\<close>

text \<open>
  C10. For every \<open>timesteps \<ge> 0\<close> and \<open>outputs_per_step \<ge> 1\<close> the padding length is
  computed (no exception), and it lies between \<open>1\<close> and \<open>outputs_per_step\<close>: the time
  axis grows by at least one frame and by at most \<open>outputs_per_step\<close> frames.
\<close>

theorem step_pad_len_bounds:
  assumes "1 \<le> r"
  shows "\<exists>pad_len. step_pad_len r timesteps = Inr pad_len
           \<and> 1 \<le> pad_len \<and> pad_len \<le> r"
proof (cases "(int timesteps + 1) mod r = 0")
  case True
  with assms show ?thesis by (simp add: step_pad_len_def)
next
  case False
  from assms have pos: "0 < r" by simp
  have lo: "0 \<le> (int timesteps + 1) mod r"
    using pos by (rule pos_mod_sign)
  have hi: "(int timesteps + 1) mod r < r"
    using pos by (rule pos_mod_bound)
  have val: "step_pad_len r timesteps
      = Inr (r - ((int timesteps + 1) mod r) + 1)"
    using False pos by (simp add: step_pad_len_def)
  have "1 \<le> r - ((int timesteps + 1) mod r) + 1"
    using hi by linarith
  moreover have "r - ((int timesteps + 1) mod r) + 1
      \<le> r"
    using False lo by linarith
  ultimately show ?thesis using val by blast
qed

theorem step_pad_len_bounds_witness:
  "(1::int) \<le> 5 \<and> step_pad_len 5 7 = Inr 3 \<and> step_pad_len 5 9 = Inr 1
     \<and> step_pad_len 5 10 = Inr 5"
proof -
  have h: "(1::int) \<le> 5" by simp
  from step_pad_len_bounds [OF h, of 7] have "\<exists>p. step_pad_len 5 7 = Inr p" by blast
  then show ?thesis by (simp add: step_pad_len_def)
qed


subsection \<open>Step padding of an assembled batch\<close>

text \<open>
  C1. Whenever \<^verbatim>\<open>collate_fn\<close> returns a batch and \<open>outputs_per_step \<ge> 1\<close>: the batch
  is a non-empty list of examples, the stacked linear and mel arrays of their padded
  waveforms have one frame count \<open>timesteps\<close>, the padding length is \<open>extra + 1\<close> with
  \<open>extra = outputs_per_step - (timesteps + 1) mod outputs_per_step\<close> when
  \<open>(timesteps + 1) mod outputs_per_step \<noteq> 0\<close> and \<open>1\<close> otherwise, and the time axis of
  both emitted arrays (their second axis, after the transposition) has
  \<open>timesteps + pad_len\<close> frames, a multiple of \<open>outputs_per_step\<close> that is at least
  \<open>timesteps + 1\<close>.
\<close>

theorem collate_fn_step_padding:
  assumes "collate_fn fl self batch = Inr (text, lens, linear, mel, ident)"
    and "1 \<le> outputs_per_step self"
  shows "\<exists>samples lin0 mel0 timesteps pad_len.
           batch = map Mapping samples
         \<and> stacked fl (spectrogram (ap self)) (prepare_data (map sample_wav samples)) = Inr lin0
         \<and> stacked fl (melspectrogram (ap self)) (prepare_data (map sample_wav samples)) = Inr mel0
         \<and> dim2 lin0 = timesteps \<and> dim2 mel0 = timesteps
         \<and> step_pad_len (outputs_per_step self) timesteps = Inr pad_len
         \<and> pad_len = (if (int timesteps + 1) mod outputs_per_step self \<noteq> 0
                       then outputs_per_step self
                              - (int timesteps + 1) mod outputs_per_step self + 1
                       else 1)
         \<and> dim1 linear = timesteps + nat pad_len \<and> dim1 mel = timesteps + nat pad_len
         \<and> int (dim1 linear) mod outputs_per_step self = 0
         \<and> int (dim1 mel) mod outputs_per_step self = 0
         \<and> timesteps + 1 \<le> dim1 linear \<and> timesteps + 1 \<le> dim1 mel"
proof -
  let ?r = "outputs_per_step self"
  from assms(1) have "collate_mappings fl self batch = Inr (text, lens, linear, mel, ident)"
    by (simp add: collate_fn_Inr)
  from collate_mappings_Inr [OF this] obtain samples lin0 mel0 pad_len lin1 mel1 where
    b: "batch = map Mapping samples" and
    l0: "stacked fl (spectrogram (ap self)) (prepare_data (map sample_wav samples)) = Inr lin0" and
    m0: "stacked fl (melspectrogram (ap self)) (prepare_data (map sample_wav samples)) = Inr mel0" and
    eq: "dim2 mel0 = dim2 lin0" and
    p: "step_pad_len ?r (dim2 mel0) = Inr pad_len" and
    l1: "pad_per_step (step_pad_value fl) lin0 pad_len = Inr lin1" and
    m1: "pad_per_step (step_pad_value fl) mel0 pad_len = Inr mel1" and
    lin: "linear = transpose_021 lin1" and mel: "mel = transpose_021 mel1"
    by blast
  let ?t = "dim2 mel0"
  from p assms(2) have pv: "pad_len = (if (int ?t + 1) mod ?r \<noteq> 0
                       then ?r - (int ?t + 1) mod ?r + 1 else 1)"
    by (auto simp: step_pad_len_def split: if_splits)
  from pad_per_step_dims [OF l1] pad_per_step_dims [OF m1] lin mel eq
  have d: "dim1 linear = ?t + nat pad_len" "dim1 mel = ?t + nat pad_len" and nn: "0 \<le> pad_len"
    by (simp_all add: transpose_021_dims)
  from nn have "int (?t + nat pad_len) = int ?t + pad_len" by simp
  with step_padded_multiple [OF assms(2), of ?t] pv
  have dv: "int (?t + nat pad_len) mod ?r = 0" by simp
  from step_pad_len_lower p assms(2) have "1 \<le> pad_len" by blast
  then have ge: "?t + 1 \<le> ?t + nat pad_len" by simp
  from eq have eq': "dim2 lin0 = ?t" by simp
  from d dv have dvl: "int (dim1 linear) mod ?r = 0" and dvm: "int (dim1 mel) mod ?r = 0"
    by simp_all
  from d ge have gel: "?t + 1 \<le> dim1 linear" and gem: "?t + 1 \<le> dim1 mel"
    by simp_all
  have eqt: "dim2 mel0 = ?t" by (rule refl)
  show ?thesis
  proof (intro exI conjI)
    show "batch = map Mapping samples" by (fact b)
    show "stacked fl (spectrogram (ap self)) (prepare_data (map sample_wav samples)) = Inr lin0"
      by (fact l0)
    show "stacked fl (melspectrogram (ap self)) (prepare_data (map sample_wav samples)) = Inr mel0"
      by (fact m0)
    show "dim2 lin0 = ?t" by (fact eq')
    show "dim2 mel0 = ?t" by (fact eqt)
    show "step_pad_len ?r ?t = Inr pad_len" by (fact p)
    show "pad_len = (if (int ?t + 1) mod ?r \<noteq> 0 then ?r - (int ?t + 1) mod ?r + 1 else 1)"
      by (fact pv)
    show "dim1 linear = ?t + nat pad_len" by (fact d(1))
    show "dim1 mel = ?t + nat pad_len" by (fact d(2))
    show "int (dim1 linear) mod ?r = 0" by (fact dvl)
    show "int (dim1 mel) mod ?r = 0" by (fact dvm)
    show "?t + 1 \<le> dim1 linear" by (fact gel)
    show "?t + 1 \<le> dim1 mel" by (fact gem)
  qed
qed


theorem collate_fn_step_padding_witness:
  "collate_fn demo_floats demo_dataset demo_batch =
     Inr ([[1, 2, 0, 0], [1, 2, 3, 4]], [2, 4],
          \<lparr>dim0 = 2, dim1 = 5, dim2 = 2,
           cells = [6, 6, 0, 0, 0, 0, 0, 0, 0, 0, 16, 16, 19, 19, 2, 2, 0, 0, 0, 0]\<rparr>,
          \<lparr>dim0 = 2, dim1 = 5, dim2 = 1, cells = [12, 0, 0, 0, 0, 32, 38, 4, 0, 0]\<rparr>,
          ''LJ001-0002'')
   \<and> 1 \<le> outputs_per_step demo_dataset
   \<and> (\<exists>timesteps pad_len.
         step_pad_len (outputs_per_step demo_dataset) timesteps = Inr pad_len
       \<and> 5 = timesteps + nat pad_len \<and> timesteps + 1 \<le> 5)"
proof -
  from collate_fn_step_padding [OF collate_fn_demo outputs_per_step_demo]
  have "\<exists>timesteps pad_len.
         step_pad_len (outputs_per_step demo_dataset) timesteps = Inr pad_len
       \<and> 5 = timesteps + nat pad_len \<and> timesteps + 1 \<le> 5"
    by (simp only: array3.simps) blast
  with collate_fn_demo outputs_per_step_demo show ?thesis by blast
qed

subsection \<open>The layout of the emitted spectrograms\<close>

text \<open>
  C8. Whenever \<^verbatim>\<open>collate_fn\<close> returns a batch, each of the two emitted spectrogram
  arrays is the transposition of the corresponding step-padded array \<open>lin1\<close>, \<open>mel1\<close>
  (the stacked array [batch \<times> bins \<times> time] after \<^verbatim>\<open>pad_per_step\<close>): its shape is
  [batch \<times> time \<times> bins], and its element \<open>[b][t][k]\<close> is the element \<open>[b][k][t]\<close> of
  the step-padded array, for all indices inside the shape.
\<close>

theorem collate_fn_transposes:
  assumes "collate_fn fl self batch = Inr (text, lens, linear, mel, ident)"
  shows "\<exists>samples lin0 mel0 pad_len lin1 mel1.
           batch = map Mapping samples
         \<and> stacked fl (spectrogram (ap self)) (prepare_data (map sample_wav samples)) = Inr lin0
         \<and> stacked fl (melspectrogram (ap self)) (prepare_data (map sample_wav samples)) = Inr mel0
         \<and> step_pad_len (outputs_per_step self) (dim2 mel0) = Inr pad_len
         \<and> pad_per_step (step_pad_value fl) lin0 pad_len = Inr lin1
         \<and> pad_per_step (step_pad_value fl) mel0 pad_len = Inr mel1
         \<and> dim0 linear = dim0 lin1 \<and> dim1 linear = dim2 lin1 \<and> dim2 linear = dim1 lin1
         \<and> dim0 mel = dim0 mel1 \<and> dim1 mel = dim2 mel1 \<and> dim2 mel = dim1 mel1
         \<and> (\<forall>b t k. b < dim0 lin1 \<and> t < dim2 lin1 \<and> k < dim1 lin1
               \<longrightarrow> at3 linear b t k = at3 lin1 b k t)
         \<and> (\<forall>b t k. b < dim0 mel1 \<and> t < dim2 mel1 \<and> k < dim1 mel1
               \<longrightarrow> at3 mel b t k = at3 mel1 b k t)"
proof -
  from assms have "collate_mappings fl self batch = Inr (text, lens, linear, mel, ident)"
    by (simp add: collate_fn_Inr)
  from collate_mappings_Inr [OF this] obtain samples lin0 mel0 pad_len lin1 mel1 where
    b: "batch = map Mapping samples" and
    l0: "stacked fl (spectrogram (ap self)) (prepare_data (map sample_wav samples)) = Inr lin0" and
    m0: "stacked fl (melspectrogram (ap self)) (prepare_data (map sample_wav samples)) = Inr mel0" and
    p: "step_pad_len (outputs_per_step self) (dim2 mel0) = Inr pad_len" and
    l1: "pad_per_step (step_pad_value fl) lin0 pad_len = Inr lin1" and
    m1: "pad_per_step (step_pad_value fl) mel0 pad_len = Inr mel1" and
    lin: "linear = transpose_021 lin1" and mel: "mel = transpose_021 mel1"
    by blast
  show ?thesis
  proof (intro exI conjI)
    show "batch = map Mapping samples" by (fact b)
    show "stacked fl (spectrogram (ap self)) (prepare_data (map sample_wav samples)) = Inr lin0"
      by (fact l0)
    show "stacked fl (melspectrogram (ap self)) (prepare_data (map sample_wav samples)) = Inr mel0"
      by (fact m0)
    show "step_pad_len (outputs_per_step self) (dim2 mel0) = Inr pad_len" by (fact p)
    show "pad_per_step (step_pad_value fl) lin0 pad_len = Inr lin1" by (fact l1)
    show "pad_per_step (step_pad_value fl) mel0 pad_len = Inr mel1" by (fact m1)
    show "dim0 linear = dim0 lin1" "dim1 linear = dim2 lin1" "dim2 linear = dim1 lin1"
      by (simp_all add: lin transpose_021_dims)
    show "dim0 mel = dim0 mel1" "dim1 mel = dim2 mel1" "dim2 mel = dim1 mel1"
      by (simp_all add: mel transpose_021_dims)
    show "\<forall>b t k. b < dim0 lin1 \<and> t < dim2 lin1 \<and> k < dim1 lin1
               \<longrightarrow> at3 linear b t k = at3 lin1 b k t"
      by (simp add: lin at3_transpose_021)
    show "\<forall>b t k. b < dim0 mel1 \<and> t < dim2 mel1 \<and> k < dim1 mel1
               \<longrightarrow> at3 mel b t k = at3 mel1 b k t"
      by (simp add: mel at3_transpose_021)
  qed
qed

theorem collate_fn_transposes_witness:
  "collate_fn demo_floats demo_dataset demo_batch =
     Inr ([[1, 2, 0, 0], [1, 2, 3, 4]], [2, 4],
          \<lparr>dim0 = 2, dim1 = 5, dim2 = 2,
           cells = [6, 6, 0, 0, 0, 0, 0, 0, 0, 0, 16, 16, 19, 19, 2, 2, 0, 0, 0, 0]\<rparr>,
          \<lparr>dim0 = 2, dim1 = 5, dim2 = 1, cells = [12, 0, 0, 0, 0, 32, 38, 4, 0, 0]\<rparr>,
          ''LJ001-0002'')
   \<and> (\<exists>lin1 mel1. dim0 lin1 = 2 \<and> dim1 lin1 = 2 \<and> dim2 lin1 = 5
         \<and> dim0 mel1 = 2 \<and> dim1 mel1 = 1 \<and> dim2 mel1 = 5
         \<and> at3 lin1 1 0 2 = (2::int) \<and> at3 mel1 1 0 2 = (4::int))"
proof -
  let ?LIN = "\<lparr>dim0 = 2, dim1 = 5, dim2 = 2,
           cells = [6, 6, 0, 0, 0, 0, 0, 0, 0, 0, 16, 16, 19, 19, 2, 2, 0, 0, 0, 0 :: int]\<rparr>"
  let ?MEL = "\<lparr>dim0 = 2, dim1 = 5, dim2 = 1, cells = [12, 0, 0, 0, 0, 32, 38, 4, 0, 0 :: int]\<rparr>"
  from collate_fn_transposes [OF collate_fn_demo]
  obtain lin1 mel1 :: "int array3" where
    dl: "dim0 ?LIN = dim0 lin1" "dim1 ?LIN = dim2 lin1" "dim2 ?LIN = dim1 lin1" and
    dm: "dim0 ?MEL = dim0 mel1" "dim1 ?MEL = dim2 mel1" "dim2 ?MEL = dim1 mel1" and
    l: "\<forall>b t k. b < dim0 lin1 \<and> t < dim2 lin1 \<and> k < dim1 lin1
               \<longrightarrow> at3 ?LIN b t k = at3 lin1 b k t" and
    m: "\<forall>b t k. b < dim0 mel1 \<and> t < dim2 mel1 \<and> k < dim1 mel1
               \<longrightarrow> at3 ?MEL b t k = at3 mel1 b k t"
    by blast
  from dl have dl': "dim0 lin1 = 2" "dim1 lin1 = 2" "dim2 lin1 = 5" by simp_all
  from dm have dm': "dim0 mel1 = 2" "dim1 mel1 = 1" "dim2 mel1 = 5" by simp_all
  from l [rule_format, of 1 2 0] dl' have "at3 lin1 1 0 2 = at3 ?LIN 1 2 0" by simp
  then have l': "at3 lin1 1 0 2 = 2" by (simp add: at3_def)
  from m [rule_format, of 1 2 0] dm' have "at3 mel1 1 0 2 = at3 ?MEL 1 2 0" by simp
  then have m': "at3 mel1 1 0 2 = 4" by (simp add: at3_def)
  from dl' dm' l' m' have "\<exists>lin1 mel1 :: int array3. dim0 lin1 = 2 \<and> dim1 lin1 = 2 \<and> dim2 lin1 = 5
         \<and> dim0 mel1 = 2 \<and> dim1 mel1 = 1 \<and> dim2 mel1 = 5
         \<and> at3 lin1 1 0 2 = (2::int) \<and> at3 mel1 1 0 2 = (4::int)"
    by blast
  with collate_fn_demo show ?thesis by (rule conjI)
qed


subsection \<open>The empty batch\<close>

text \<open>
  C3, as the code has it. Called with the empty list, \<^verbatim>\<open>collate_fn\<close> fails with
  \<open>IndexError\<close>, raised by \<^verbatim>\<open>batch[0]\<close> on line 78, and returns no batch, whatever
  the configuration.
\<close>

theorem collate_fn_empty_batch: "collate_fn fl self [] = Inl IndexError"
  by (simp add: collate_fn_def)

text \<open>
  C3, as the specification has it, fails: the exception is not \<open>EmptyBatchError\<close>.
\<close>

theorem collate_fn_empty_batch_counterexample:
  "collate_fn demo_floats demo_dataset [] = Inl IndexError
     \<and> collate_fn demo_floats demo_dataset [] \<noteq> Inl EmptyBatchError"
  by (simp add: collate_fn_def)


subsection \<open>A batch whose first element is not a mapping\<close>

text \<open>
  C9. For every non-empty batch whose first element is not a mapping, \<^verbatim>\<open>collate_fn\<close>
  raises \<open>TypeError\<close> with the message of lines 118 to 120, which ends with the type of
  that element, and returns no batch; and a call that returns a batch was given a
  list whose first element is a mapping.
\<close>

theorem collate_fn_non_mapping:
  "collate_fn fl self (NonMapping ty # rest)
      = Inl (TypeError (''batch must contain tensors, numbers, dicts or lists;''
                        @ replicate 25 (CHR '' '') @ ''found '' @ type_repr ty))
   \<and> (collate_fn fl self batch = Inr res \<longrightarrow> (\<exists>d others. batch = Mapping d # others))"
  by (auto simp: collate_fn_def batch_type_error_def split: list.splits item.splits)

theorem collate_fn_non_mapping_witness:
  "collate_fn demo_floats demo_dataset (NonMapping PyList # demo_batch)
      = Inl (TypeError (''batch must contain tensors, numbers, dicts or lists;''
                        @ ''                         found <class 'list'>''))
   \<and> (\<exists>res. collate_fn demo_floats demo_dataset demo_batch = Inr res)
   \<and> (\<exists>d others. demo_batch = Mapping d # others)"
proof -
  from collate_fn_non_mapping [of demo_floats demo_dataset PyList demo_batch demo_batch]
    collate_fn_demo
  show ?thesis by (simp add: eval_nat_numeral)
qed


subsection \<open>The padded symbol matrix and the lengths\<close>

lemma max_len_Max:
  assumes "sequences \<noteq> []"
  shows "max_len sequences = Max (set (map length sequences))"
proof -
  have "max_len sequences = Max (set (0 # map length sequences))"
    unfolding max_len_def by (rule Max.set_eq_fold [symmetric])
  also have "\<dots> = max 0 (Max (set (map length sequences)))"
    using assms by simp
  finally show ?thesis by simp
qed

lemma length_le_max_len: "x \<in> set sequences \<Longrightarrow> length x \<le> max_len sequences"
proof -
  assume x: "x \<in> set sequences"
  then have "sequences \<noteq> []" by auto
  then have "max_len sequences = Max (set (map length sequences))" by (rule max_len_Max)
  moreover from x have "length x \<le> Max (set (map length sequences))" by simp
  ultimately show ?thesis by simp
qed

lemma max_len_map: "max_len (map (map g) sequences) = max_len sequences"
  by (simp add: max_len_def comp_def)

lemma sequence_pad_map:
  assumes "g 0 = 0"
  shows "map (map g) (fst (sequence_pad sequences 0)) = fst (sequence_pad (map (map g) sequences) 0)"
  using assms by (simp add: sequence_pad_def pad_data_def max_len_map)

text \<open>
  The two conversions of the symbols together: the signed value is reduced to 32 bits,
  and a symbol inside the \<^verbatim>\<open>int32\<close> range is not changed.
\<close>

lemma sint_long_tensor_astype_int32:
  "sint (long_tensor (astype_int32 x)) = signed_take_bit 31 (sint x)"
proof -
  have "sint (ucast x :: 32 word) = signed_take_bit 31 (take_bit 32 (uint x))"
    by (simp add: sint_uint unsigned_ucast_eq)
  also have "\<dots> = signed_take_bit 31 (uint x)"
    by (simp add: signed_take_bit_take_bit)
  also have "\<dots> = signed_take_bit 31 (signed_take_bit 63 (uint x))"
    by (simp add: min_def)
  also have "\<dots> = signed_take_bit 31 (sint x)"
    by (simp add: sint_uint)
  finally have low: "sint (ucast x :: 32 word) = signed_take_bit 31 (sint x)" .
  have "sint (scast (ucast x :: 32 word) :: 64 word) = sint (ucast x :: 32 word)"
    by (simp add: sint_up_scast is_up)
  with low show ?thesis by (simp add: long_tensor_def astype_int32_def)
qed

lemma long_tensor_astype_int32_in_range:
  assumes "- (2 ^ 31) \<le> sint x \<and> sint x < 2 ^ 31"
  shows "long_tensor (astype_int32 x) = x"
proof -
  from assms have "signed_take_bit 31 (sint x) = sint x"
    by (simp add: signed_take_bit_int_eq_self)
  then have "sint (long_tensor (astype_int32 x)) = sint x"
    by (simp add: sint_long_tensor_astype_int32)
  then show ?thesis by (rule signed_word_eqI)
qed

lemma long_tensor_astype_int32_zero: "long_tensor (astype_int32 0) = 0"
  by (simp add: long_tensor_def astype_int32_def)

text \<open>
  C5. For every list of sequences \<open>L\<close> and fill value \<open>f\<close>, the padder returns one row
  and one length for each sequence; the width is the maximum length over \<open>L\<close>; row
  \<open>i\<close> is \<open>L[i]\<close> followed by \<open>f\<close> repeated up to that width, and \<open>lengths[i]\<close> is the
  length of \<open>L[i]\<close> before padding. In a batch that \<^verbatim>\<open>collate_fn\<close> returns, the lengths
  are the original lengths of the transcripts, and the symbol matrix is what the
  padder gives, with the pad symbol \<open>0\<close>, for the transcripts as \<^verbatim>\<open>int32\<close> values (line
  89 converts them): for transcripts whose symbols all lie in the \<^verbatim>\<open>int32\<close> range, it
  is what the padder gives for the transcripts themselves.
\<close>

theorem sequence_pad_rows:
  "length (fst (sequence_pad L f)) = length L
   \<and> snd (sequence_pad L f) = map length L
   \<and> (L \<noteq> [] \<longrightarrow> max_len L = Max (set (map length L)))
   \<and> (\<forall>i. i < length L \<longrightarrow>
          fst (sequence_pad L f) ! i = L ! i @ replicate (max_len L - length (L ! i)) f
        \<and> length (fst (sequence_pad L f) ! i) = max_len L
        \<and> snd (sequence_pad L f) ! i = length (L ! i))
   \<and> (collate_fn fl self batch = Inr (text, lens, linear, mel, ident) \<longrightarrow>
        (\<exists>samples. batch = map Mapping samples
           \<and> lens = snd (sequence_pad (map sample_text samples) 0)
           \<and> text = fst (sequence_pad
                (map (\<lambda>s. map (\<lambda>x. long_tensor (astype_int32 x)) (sample_text s)) samples) 0)
           \<and> (list_all (\<lambda>s. list_all (\<lambda>x. - (2 ^ 31) \<le> sint x \<and> sint x < 2 ^ 31)
                                  (sample_text s)) samples
                \<longrightarrow> text = fst (sequence_pad (map sample_text samples) 0))))"
proof (intro conjI allI impI)
  show "length (fst (sequence_pad L f)) = length L" by (simp add: sequence_pad_def)
  show "snd (sequence_pad L f) = map length L" by (simp add: sequence_pad_def)
  show "max_len L = Max (set (map length L))" if "L \<noteq> []" using that by (rule max_len_Max)
  show "fst (sequence_pad L f) ! i = L ! i @ replicate (max_len L - length (L ! i)) f"
    if "i < length L" for i using that by (simp add: sequence_pad_def pad_data_def)
  show "length (fst (sequence_pad L f) ! i) = max_len L" if "i < length L" for i
  proof -
    from that have "length (L ! i) \<le> max_len L" by (intro length_le_max_len) simp
    with that show ?thesis by (simp add: sequence_pad_def pad_data_def)
  qed
  show "snd (sequence_pad L f) ! i = length (L ! i)" if "i < length L" for i
    using that by (simp add: sequence_pad_def)
  show "\<exists>samples. batch = map Mapping samples
           \<and> lens = snd (sequence_pad (map sample_text samples) 0)
           \<and> text = fst (sequence_pad
                (map (\<lambda>s. map (\<lambda>x. long_tensor (astype_int32 x)) (sample_text s)) samples) 0)
           \<and> (list_all (\<lambda>s. list_all (\<lambda>x. - (2 ^ 31) \<le> sint x \<and> sint x < 2 ^ 31)
                                  (sample_text s)) samples
                \<longrightarrow> text = fst (sequence_pad (map sample_text samples) 0))"
    if "collate_fn fl self batch = Inr (text, lens, linear, mel, ident)"
  proof -
    let ?cast = "\<lambda>x. long_tensor (astype_int32 x)"
    from that have "collate_mappings fl self batch = Inr (text, lens, linear, mel, ident)"
      by (simp add: collate_fn_Inr)
    from collate_mappings_Inr [OF this] obtain samples where
      b: "batch = map Mapping samples" and
      t: "text = map (map long_tensor)
                   (map (map astype_int32) (prepare_data (map sample_text samples)))" and
      l: "lens = map length (map sample_text samples)"
      by blast
    let ?texts = "map sample_text samples"
    from l have l': "lens = snd (sequence_pad ?texts 0)" by (simp add: sequence_pad_def)
    from t have "text = map (map ?cast) (fst (sequence_pad ?texts 0))"
      by (simp add: prepare_data_def comp_def)
    also have "\<dots> = fst (sequence_pad (map (map ?cast) ?texts) 0)"
      by (rule sequence_pad_map) (rule long_tensor_astype_int32_zero)
    finally have t': "text = fst (sequence_pad
        (map (\<lambda>s. map ?cast (sample_text s)) samples) 0)"
      by (simp add: comp_def)
    have t'': "text = fst (sequence_pad ?texts 0)"
      if r: "list_all (\<lambda>s. list_all (\<lambda>x. - (2 ^ 31) \<le> sint x \<and> sint x < 2 ^ 31)
                                  (sample_text s)) samples"
    proof -
      have "map ?cast (sample_text s) = sample_text s" if "s \<in> set samples" for s
      proof -
        from r that have "list_all (\<lambda>x. - (2 ^ 31) \<le> sint x \<and> sint x < 2 ^ 31) (sample_text s)"
          by (simp add: list_all_iff)
        then have "?cast x = x" if "x \<in> set (sample_text s)" for x
          using that by (intro long_tensor_astype_int32_in_range) (simp add: list_all_iff)
        then show ?thesis by (simp add: map_idI)
      qed
      then have "map (\<lambda>s. map ?cast (sample_text s)) samples = ?texts" by simp
      with t' show ?thesis by simp
    qed
    from b l' t' t'' show ?thesis by blast
  qed
qed

theorem sequence_pad_rows_witness:
  "[[1, 2], [1, 2, 3, 4 :: 64 word]] \<noteq> [] \<and> 0 < length [[1, 2], [1, 2, 3, 4 :: 64 word]]
   \<and> max_len [[1, 2], [1, 2, 3, 4 :: 64 word]] = 4
   \<and> fst (sequence_pad [[1, 2], [1, 2, 3, 4 :: 64 word]] 0) ! 0 = [1, 2, 0, 0]
   \<and> snd (sequence_pad [[1, 2], [1, 2, 3, 4 :: 64 word]] 0) ! 0 = 2
   \<and> (\<exists>res. collate_fn demo_floats demo_dataset demo_batch = Inr res)
   \<and> (\<exists>samples. demo_batch = map Mapping samples
         \<and> list_all (\<lambda>s. list_all (\<lambda>x. - (2 ^ 31) \<le> sint x \<and> sint x < 2 ^ 31)
                                (sample_text s)) samples
         \<and> ([[1, 2, 0, 0], [1, 2, 3, 4]], [2, 4]) = sequence_pad (map sample_text samples) 0)"
proof -
  let ?L = "[[1, 2], [1, 2, 3, 4 :: 64 word]]"
  note t = sequence_pad_rows [of ?L 0 demo_floats demo_dataset demo_batch
      "[[1, 2, 0, 0], [1, 2, 3, 4]]" "[2, 4]"
      "\<lparr>dim0 = 2, dim1 = 5, dim2 = 2,
           cells = [6, 6, 0, 0, 0, 0, 0, 0, 0, 0, 16, 16, 19, 19, 2, 2, 0, 0, 0, 0]\<rparr>"
      "\<lparr>dim0 = 2, dim1 = 5, dim2 = 1, cells = [12, 0, 0, 0, 0, 32, 38, 4, 0, 0]\<rparr>"
      "''LJ001-0002''"]
  have ne: "?L \<noteq> []" and pos: "0 < length ?L" by simp_all
  from t ne have m: "max_len ?L = Max (set (map length ?L))" by blast
  then have m4: "max_len ?L = 4" by simp
  from t pos have r: "fst (sequence_pad ?L 0) ! 0 = ?L ! 0 @ replicate (max_len ?L - length (?L ! 0)) 0"
    and l: "snd (sequence_pad ?L 0) ! 0 = length (?L ! 0)"
    by blast+
  from r m4 have r0: "fst (sequence_pad ?L 0) ! 0 = [1, 2, 0, 0]"
    by (simp add: eval_nat_numeral)
  from l have l0: "snd (sequence_pad ?L 0) ! 0 = 2" by simp
  from t collate_fn_demo obtain samples :: "int sample list" where
    b: "demo_batch = map Mapping samples" and
    ls: "[2, 4] = snd (sequence_pad (map sample_text samples) 0)" and
    imp: "list_all (\<lambda>s. list_all (\<lambda>x. - (2 ^ 31) \<le> sint x \<and> sint x < 2 ^ 31)
                                (sample_text s)) samples
           \<longrightarrow> [[1, 2, 0, 0], [1, 2, 3, 4]] = fst (sequence_pad (map sample_text samples) 0)"
    by blast
  from b have "map Mapping samples =
      map Mapping [\<lparr>sample_text = [1, 2], sample_wav = [3, -1, 4],
               sample_item_idx = ''LJ001-0002''\<rparr>,
      \<lparr>sample_text = [1, 2, 3, 4], sample_wav = [2, 7, -1, 8, 2, 8, 1, 8, -2],
               sample_item_idx = ''LJ001-0001''\<rparr>]"
    by (simp add: demo_batch_def)
  then have "samples = [\<lparr>sample_text = [1, 2], sample_wav = [3, -1, 4],
               sample_item_idx = ''LJ001-0002''\<rparr>,
      \<lparr>sample_text = [1, 2, 3, 4], sample_wav = [2, 7, -1, 8, 2, 8, 1, 8, -2],
               sample_item_idx = ''LJ001-0001''\<rparr>]"
    by (rule map_injective) (simp add: inj_on_def)
  then have rng: "list_all (\<lambda>s. list_all (\<lambda>x. - (2 ^ 31) \<le> sint x \<and> sint x < 2 ^ 31)
                                (sample_text s)) samples"
    by simp
  with imp have "[[1, 2, 0, 0], [1, 2, 3, 4]] = fst (sequence_pad (map sample_text samples) 0)"
    by blast
  with ls have "([[1, 2, 0, 0], [1, 2, 3, 4]], [2, 4]) = sequence_pad (map sample_text samples) 0"
    by (simp add: prod_eq_iff)
  with b rng have c: "\<exists>samples. demo_batch = map Mapping samples
         \<and> list_all (\<lambda>s. list_all (\<lambda>x. - (2 ^ 31) \<le> sint x \<and> sint x < 2 ^ 31)
                                (sample_text s)) samples
         \<and> ([[1, 2, 0, 0], [1, 2, 3, 4]], [2, 4]) = sequence_pad (map sample_text samples) 0"
    by blast
  from collate_fn_demo have ex: "\<exists>res. collate_fn demo_floats demo_dataset demo_batch = Inr res"
    by (rule exI)
  from ne pos m4 r0 l0 ex c show ?thesis by (intro conjI)
qed


subsection \<open>The two spectrograms have one frame count\<close>

lemma map_exn_Cons_Inr:
  "map_exn f xs = Inr (y # ys) \<Longrightarrow> \<exists>x xs'. xs = x # xs' \<and> f x = Inr y"
  by (cases xs) (auto split: sum.splits)

lemma np_array_Inr:
  "np_array xs = Inr a \<Longrightarrow> \<exists>x xs'. xs = x # xs' \<and> dim2 a = cols x \<and> dim1 a = rows x"
  by (cases xs) (auto simp: np_array_def split: if_splits)

lemma stacked_Inr:
  assumes "stacked fl method wav = Inr a"
  shows "\<exists>w ws s. wav = w # ws \<and> method w = Inr s \<and> dim2 a = cols s"
proof -
  let ?f = "\<lambda>w. bind_exn (method w) (\<lambda>s. Inr (map_array2 (astype_float32 fl) s))"
  from assms obtain xs where xs: "map_exn ?f wav = Inr xs" and a: "np_array xs = Inr a"
    unfolding stacked_def bind_exn_Inr by blast
  from np_array_Inr [OF a] obtain x xs' where x: "xs = x # xs'" and d: "dim2 a = cols x"
    by blast
  from xs x have "map_exn ?f wav = Inr (x # xs')" by simp
  from map_exn_Cons_Inr [OF this] obtain w ws where w: "wav = w # ws" and fw: "?f w = Inr x"
    by blast
  from fw obtain s where s: "method w = Inr s" and "x = map_array2 (astype_float32 fl) s"
    unfolding bind_exn_Inr by auto
  then have "cols x = cols s" by (simp add: map_array2_def)
  with w s d show ?thesis by simp
qed

lemma frontend_cols:
  assumes "frontend_spectrogram fe w = Inr s" and "frontend_melspectrogram fe w = Inr m"
  shows "cols s = cols m"
proof -
  from assms(1) obtain mag where mag: "stft_magnitude fe (preemphasis fe w) = Inr mag"
    and s: "s = map_array2 (\<lambda>x. normalize fe (amp_to_db fe x)) mag"
    unfolding frontend_spectrogram_def bind_exn_Inr by auto
  from assms(2) mag obtain p where p: "matmul (mel_basis fe) mag = Inr p"
    and m: "m = map_array2 (\<lambda>x. normalize fe (amp_to_db fe x)) p"
    unfolding frontend_melspectrogram_def bind_exn_Inr by auto
  from p have "cols p = cols mag" by (auto simp: matmul_def split: if_splits)
  with s m show ?thesis by (simp add: map_array2_def)
qed

text \<open>
  C6. For every waveform and every configuration of the frontend, the linear and the
  mel spectrogram, when both are computed, have the same number of frames; and
  whenever both stacked arrays of lines 92 and 93 are built from this frontend, their
  time axes are equal, which is what the assertion of line 94 tests.
\<close>

theorem frontend_time_axes_agree:
  "(frontend_spectrogram fe w = Inr s \<and> frontend_melspectrogram fe w = Inr m
      \<longrightarrow> cols s = cols m)
   \<and> (stacked fl (spectrogram (spectral_frontend fe)) wav = Inr linear
      \<and> stacked fl (melspectrogram (spectral_frontend fe)) wav = Inr mel
      \<longrightarrow> dim2 mel = dim2 linear)"
proof (intro conjI impI)
  show "cols s = cols m"
    if "frontend_spectrogram fe w = Inr s \<and> frontend_melspectrogram fe w = Inr m"
    using that by (auto intro: frontend_cols)
  show "dim2 mel = dim2 linear"
    if h: "stacked fl (spectrogram (spectral_frontend fe)) wav = Inr linear
      \<and> stacked fl (melspectrogram (spectral_frontend fe)) wav = Inr mel"
  proof -
    from h stacked_Inr [of fl "spectrogram (spectral_frontend fe)" wav linear]
    obtain w ws s where w: "wav = w # ws" and s: "frontend_spectrogram fe w = Inr s"
      and dl: "dim2 linear = cols s"
      by (auto simp: spectral_frontend_def)
    from h stacked_Inr [of fl "melspectrogram (spectral_frontend fe)" wav mel]
    obtain w' ws' m where w': "wav = w' # ws'" and m: "frontend_melspectrogram fe w' = Inr m"
      and dm: "dim2 mel = cols m"
      by (auto simp: spectral_frontend_def)
    from w w' have "w' = w" by simp
    with s m have "cols s = cols m" by (auto intro: frontend_cols)
    with dl dm show ?thesis by simp
  qed
qed

lemma frontend_demo:
  "frontend_spectrogram demo_frontend [3, -1, 4, 0, 0, 0, 0, 0, 0]
     = Inr \<lparr>rows = 2, cols = 3, cells2 = [6, 0, 0, 6, 0, 0]\<rparr>"
  "frontend_melspectrogram demo_frontend [3, -1, 4, 0, 0, 0, 0, 0, 0]
     = Inr \<lparr>rows = 1, cols = 3, cells2 = [12, 0, 0]\<rparr>"
  by code_simp+

lemma stacked_demo:
  "stacked demo_floats (spectrogram (spectral_frontend demo_frontend))
      (prepare_data [[3, -1, 4], [2, 7, -1, 8, 2, 8, 1, 8, -2]])
     = Inr \<lparr>dim0 = 2, dim1 = 2, dim2 = 3, cells = [6, 0, 0, 6, 0, 0, 16, 19, 2, 16, 19, 2]\<rparr>"
  "stacked demo_floats (melspectrogram (spectral_frontend demo_frontend))
      (prepare_data [[3, -1, 4], [2, 7, -1, 8, 2, 8, 1, 8, -2]])
     = Inr \<lparr>dim0 = 2, dim1 = 1, dim2 = 3, cells = [12, 0, 0, 32, 38, 4]\<rparr>"
  by code_simp+

theorem frontend_time_axes_agree_witness:
  "frontend_spectrogram demo_frontend [3, -1, 4, 0, 0, 0, 0, 0, 0]
     = Inr \<lparr>rows = 2, cols = 3, cells2 = [6, 0, 0, 6, 0, 0]\<rparr>
   \<and> frontend_melspectrogram demo_frontend [3, -1, 4, 0, 0, 0, 0, 0, 0]
     = Inr \<lparr>rows = 1, cols = 3, cells2 = [12, 0, 0]\<rparr>
   \<and> stacked demo_floats (spectrogram (spectral_frontend demo_frontend))
      (prepare_data [[3, -1, 4], [2, 7, -1, 8, 2, 8, 1, 8, -2]])
     = Inr \<lparr>dim0 = 2, dim1 = 2, dim2 = 3, cells = [6, 0, 0, 6, 0, 0, 16, 19, 2, 16, 19, 2]\<rparr>
   \<and> stacked demo_floats (melspectrogram (spectral_frontend demo_frontend))
      (prepare_data [[3, -1, 4], [2, 7, -1, 8, 2, 8, 1, 8, -2]])
     = Inr \<lparr>dim0 = 2, dim1 = 1, dim2 = 3, cells = [12, 0, 0, 32, 38, 4]\<rparr>
   \<and> cols \<lparr>rows = 2, cols = 3, cells2 = [6, 0, 0, 6, 0, 0 :: int]\<rparr>
       = cols \<lparr>rows = 1, cols = 3, cells2 = [12, 0, 0 :: int]\<rparr>
   \<and> dim2 \<lparr>dim0 = 2, dim1 = 1, dim2 = 3, cells = [12, 0, 0, 32, 38, 4 :: int]\<rparr>
       = dim2 \<lparr>dim0 = 2, dim1 = 2, dim2 = 3, cells = [6, 0, 0, 6, 0, 0, 16, 19, 2, 16, 19, 2 :: int]\<rparr>"
  using frontend_demo stacked_demo
    frontend_time_axes_agree [of demo_frontend "[3, -1, 4, 0, 0, 0, 0, 0, 0]"
      "\<lparr>rows = 2, cols = 3, cells2 = [6, 0, 0, 6, 0, 0]\<rparr>"
      "\<lparr>rows = 1, cols = 3, cells2 = [12, 0, 0]\<rparr>" demo_floats
      "prepare_data [[3, -1, 4], [2, 7, -1, 8, 2, 8, 1, 8, -2]]"
      "\<lparr>dim0 = 2, dim1 = 2, dim2 = 3, cells = [6, 0, 0, 6, 0, 0, 16, 19, 2, 16, 19, 2]\<rparr>"
      "\<lparr>dim0 = 2, dim1 = 1, dim2 = 3, cells = [12, 0, 0, 32, 38, 4]\<rparr>"]
  by blast


subsection \<open>A waveform that cannot be decoded\<close>

text \<open>
  What \<^verbatim>\<open>load_wav\<close> does when the decoder raises: for \<open>RuntimeError\<close> it prints one line
  with the file name and falls through the handler, so that \<^verbatim>\<open>None\<close> is returned; an
  exception of any other class passes to the caller as it is.
\<close>

lemma load_wav_on_failure:
  assumes "librosa_load filename (sample_rate self) = Inl e"
  shows "(e = RuntimeError \<longrightarrow>
            load_wav librosa_load self out filename
              = (out @ ['' !! Cannot read file : '' @ filename], Inr None))
       \<and> (e \<noteq> RuntimeError \<longrightarrow> load_wav librosa_load self out filename = (out, Inl e))"
  using assms by (simp add: load_wav_def)

text \<open>
  The only caller, \<^verbatim>\<open>__getitem__\<close>, subscripts that \<^verbatim>\<open>None\<close> on line 60 and fails with
  a \<open>TypeError\<close> that does not name the file.
\<close>

lemma getitem_after_failed_load:
  assumes "py_index (frames self) idx = Inr ins" and "py_index ins 0 = Inr name"
    and "py_index ins 1 = Inr raw_text"
    and "text_to_int32 raw_text [cleaners self] = Inr symbols"
    and "librosa_load (os_path_join (root_dir self) name @ ''.wav'') (sample_rate self)
           = Inl RuntimeError"
  shows "getitem librosa_load text_to_int32 fl self out idx
           = (out @ ['' !! Cannot read file : '' @ os_path_join (root_dir self) name @ ''.wav''],
              Inl (TypeError '''NoneType' object is not subscriptable''))"
  using assms by (simp add: getitem_def bind_exn_def load_wav_def Let_def)

text \<open>
  C4 does not hold of the code. On a file for which the decoder raises
  \<open>RuntimeError\<close> (here the first line of the manifest, with a decoder that fails on
  every file), \<^verbatim>\<open>load_wav\<close> reports no failure: it prints the line
  \<^verbatim>\<open> !! Cannot read file : wavs/LJ001-0002.wav\<close> and returns \<^verbatim>\<open>None\<close> in the place of
  the waveform; \<^verbatim>\<open>__getitem__\<close> then fails on that \<^verbatim>\<open>None\<close> with
  \<open>TypeError: 'NoneType' object is not subscriptable\<close>. No \<open>AudioLoadError\<close> carrying
  the resource identifier is raised on either level.
\<close>

theorem load_wav_failing_input:
  "load_wav unreadable demo_dataset [] ''wavs/LJ001-0002.wav''
     = (['' !! Cannot read file : wavs/LJ001-0002.wav''], Inr None)
   \<and> snd (load_wav unreadable demo_dataset [] ''wavs/LJ001-0002.wav'')
        \<noteq> Inl (AudioLoadError ''wavs/LJ001-0002.wav'')
   \<and> getitem unreadable demo_symbols demo_floats demo_dataset [] 0
     = (['' !! Cannot read file : wavs/LJ001-0002.wav''],
        Inl (TypeError '''NoneType' object is not subscriptable''))"
  by code_simp


subsection \<open>The order of the examples\<close>











end
